theory Spec2Isabelle
  imports Main
begin

section \<open>Python strings\<close>

text \<open>
  Strings are lists of characters. The configuration documents of this repository hold
  ASCII text (team and service names, AWS region names, resource type tags), and the
  string methods below are Python's on that range: \<open>str.lower\<close> moves \<open>A\<close> .. \<open>Z\<close>
  to \<open>a\<close> .. \<open>z\<close> and leaves every other character alone, \<open>str.strip\<close> removes the
  white space of both ends (tab, line feed, vertical tab, form feed, carriage return,
  the four separators \<open>0x1c\<close> .. \<open>0x1f\<close> and the blank).
\<close>

definition lower_char :: "char \<Rightarrow> char" where
  "lower_char c =
     (let n = (of_char c :: nat) in if 65 \<le> n \<and> n \<le> 90 then char_of (n + 32) else c)"

definition lower :: "string \<Rightarrow> string" where
  "lower s = map lower_char s"

definition isspace :: "char \<Rightarrow> bool" where
  "isspace c = (let n = (of_char c :: nat) in (9 \<le> n \<and> n \<le> 13) \<or> (28 \<le> n \<and> n \<le> 32))"

definition strip :: "string \<Rightarrow> string" where
  "strip s = rev (dropWhile isspace (rev (dropWhile isspace s)))"

text \<open>\<open>s.startswith(p)\<close>.\<close>

fun startswith :: "string \<Rightarrow> string \<Rightarrow> bool" where
  "startswith s [] = True"
| "startswith [] (p # ps) = False"
| "startswith (c # cs) (p # ps) = (c = p \<and> startswith cs ps)"

text \<open>\<open>sub in s\<close> on two strings: \<open>sub\<close> occurs in \<open>s\<close> as a contiguous run.\<close>

fun contains :: "string \<Rightarrow> string \<Rightarrow> bool" where
  "contains [] sub = (sub = [])"
| "contains (c # cs) sub = (startswith (c # cs) sub \<or> contains cs sub)"

text \<open>
  \<open>s.split(sep, 1)\<close> when \<open>sep\<close> occurs in \<open>s\<close>: the text before the first occurrence
  and the text after it. \<open>s.split(sep)[0]\<close> is the first component, the whole string
  when \<open>sep\<close> does not occur.
\<close>

definition split_once :: "char \<Rightarrow> string \<Rightarrow> string \<times> string" where
  "split_once sep s = (takeWhile (\<lambda>c. c \<noteq> sep) s, tl (dropWhile (\<lambda>c. c \<noteq> sep) s))"

definition split_head :: "char \<Rightarrow> string \<Rightarrow> string" where
  "split_head sep s = takeWhile (\<lambda>c. c \<noteq> sep) s"

text \<open>\<open>d.get(k, default)\<close> on a dictionary kept as an association list.\<close>

definition dict_get :: "('k \<times> 'v) list \<Rightarrow> 'k \<Rightarrow> 'v \<Rightarrow> 'v" where
  "dict_get d k dflt = (case map_of d k of None \<Rightarrow> dflt | Some v \<Rightarrow> v)"

text \<open>
  \<open>d[k] = v\<close> keeps the position of a key that is already there and appends a new one,
  \<open>d.pop(k, default)\<close> removes the key, \<open>d.setdefault(k, v)\<close> stores \<open>v\<close> only when the key
  is absent. Python dictionaries keep insertion order and hold each key once.
\<close>

fun dict_set :: "('k \<times> 'v) list \<Rightarrow> 'k \<Rightarrow> 'v \<Rightarrow> ('k \<times> 'v) list" where
  "dict_set [] k v = [(k, v)]"
| "dict_set ((k', v') # d) k v = (if k' = k then (k, v) # d else (k', v') # dict_set d k v)"

definition dict_remove :: "('k \<times> 'v) list \<Rightarrow> 'k \<Rightarrow> ('k \<times> 'v) list" where
  "dict_remove d k = filter (\<lambda>kv. fst kv \<noteq> k) d"

definition setdefault :: "('k \<times> 'v) list \<Rightarrow> 'k \<Rightarrow> 'v \<Rightarrow> ('k \<times> 'v) list" where
  "setdefault d k v = (case map_of d k of None \<Rightarrow> d @ [(k, v)] | Some v' \<Rightarrow> d)"

text \<open>\<open>config.get(key, default)\<close> on a key that is present (\<open>Some\<close>) or absent.\<close>

definition get_default :: "'a option \<Rightarrow> 'a \<Rightarrow> 'a" where
  "get_default field dflt = (case field of None \<Rightarrow> dflt | Some v \<Rightarrow> v)"

section \<open>Data model\<close>

text \<open>
  What \<open>yaml.safe_load\<close> puts into an argument tree: null, booleans, integers, strings,
  sequences and mappings with string keys. Floating point scalars are left out; the
  resolver treats every scalar that is not a string alike.
\<close>

datatype pyvalue =
    VNone
  | VBool bool
  | VInt int
  | VStr string
  | VList "pyvalue list"
  | VDict "(string \<times> pyvalue) list"

text \<open>Python's truth value of an object, as \<open>if x:\<close> tests it.\<close>

fun truthy :: "pyvalue \<Rightarrow> bool" where
  "truthy VNone = False"
| "truthy (VBool x) = x"
| "truthy (VInt i) = (i \<noteq> 0)"
| "truthy (VStr s) = (s \<noteq> [])"
| "truthy (VList items) = (items \<noteq> [])"
| "truthy (VDict kvs) = (kvs \<noteq> [])"

text \<open>
  The exceptions the code raises or catches by class, each with its message;
  \<open>OtherError\<close> is an exception of any other class.
\<close>

datatype exn =
    ValueError string
  | ImportError string
  | AttributeError string
  | OtherError string

text \<open>The lines the code prints, one constructor for each \<open>print\<close> of the source.\<close>

datatype event =
    SecretWarning string
  | AttributeWarning string string
  | CreatedDataSource string string
  | CreatedResource string string
  | ErrorCreating string string exn
  | ExportFailed string exn
  | StackCreationError exn

text \<open>The result of a call that prints: what it returns or raises, and the lines printed.\<close>

type_synonym 'a outcome = "(exn + 'a) \<times> event list"

text \<open>\<open>AWSResource\<close> and \<open>Config\<close> of \<open>config.py\<close>. A field read with \<open>.get\<close> or tested
  with \<open>in\<close> is optional: \<open>None\<close> is the absent key.\<close>

record aws_resource =
  name :: string
  rtype :: string
  args :: "(string \<times> pyvalue) list option"
  custom_name :: "string option"

record config =
  team :: "string option"
  service :: "string option"
  environment :: "string option"
  region :: "string option"
  tags :: "pyvalue option"
  aws_resources :: "aws_resource list option"

text \<open>
  The provisioning backend (the generated \<open>imports.aws\<close> package and \<open>cdktf\<close>) is not part
  of the repository; the model takes it as a parameter. \<open>modules\<close> lists the modules that
  \<open>importlib.import_module\<close> finds under \<open>imports.aws\<close>, each with the attribute names that
  \<open>getattr\<close> finds in it; \<open>construct\<close> is the call of such a class with the stack, an
  identifier and keyword arguments (module name, class name, identifier, arguments);
  \<open>getattr\<close> and \<open>get_string\<close> read an attribute of a handle; \<open>terraform_output\<close> is the
  construction of a \<open>TerraformOutput\<close>, \<open>Some\<close> the exception it raises. The handle type
  \<open>'h\<close> is the backend's.
\<close>

record 'h backend =
  modules :: "(string \<times> string list) list"
  construct :: "string \<Rightarrow> string \<Rightarrow> string \<Rightarrow> (string \<times> pyvalue) list \<Rightarrow> exn + 'h"
  getattr :: "'h \<Rightarrow> string \<Rightarrow> exn + pyvalue"
  get_string :: "'h \<Rightarrow> string \<Rightarrow> exn + pyvalue"
  terraform_output :: "string \<Rightarrow> pyvalue \<Rightarrow> exn option"

text \<open>
  The state a build run changes: the registry \<open>self.resources\<close>, the lines printed so
  far and the outputs added to the stack.
\<close>

record 'h builder =
  resources :: "(string \<times> 'h) list"
  printed :: "event list"
  outputs :: "(string \<times> pyvalue) list"

section \<open>Naming convention engine\<close>

definition AWS_REGION_ABBREVIATIONS :: "(string \<times> string) list" where
  "AWS_REGION_ABBREVIATIONS =
    [(''us-east-1'', ''use1''),
     (''us-east-2'', ''use2''),
     (''us-west-1'', ''usw1''),
     (''us-west-2'', ''usw2''),
     (''af-south-1'', ''afs1''),
     (''ap-east-1'', ''ape1''),
     (''ap-south-1'', ''aps1''),
     (''ap-northeast-1'', ''apne1''),
     (''ap-northeast-2'', ''apne2''),
     (''ap-northeast-3'', ''apne3''),
     (''ap-southeast-1'', ''apse1''),
     (''ap-southeast-2'', ''apse2''),
     (''ca-central-1'', ''cac1''),
     (''eu-central-1'', ''euc1''),
     (''eu-west-1'', ''euw1''),
     (''eu-west-2'', ''euw2''),
     (''eu-west-3'', ''euw3''),
     (''eu-north-1'', ''eun1''),
     (''eu-south-1'', ''eus1''),
     (''me-south-1'', ''mes1''),
     (''sa-east-1'', ''sae1''),
     (''us-gov-east-1'', ''usge1''),
     (''us-gov-west-1'', ''usgw1''),
     (''cn-north-1'', ''cnn1''),
     (''cn-northwest-1'', ''cnnw1'')]"

text \<open>\<open>AWSResourceBuilder.get_abbreviation\<close>.\<close>

definition get_abbreviation :: "string \<Rightarrow> string" where
  "get_abbreviation reg =
     dict_get AWS_REGION_ABBREVIATIONS (lower reg) (lower (split_head CHR ''-'' reg))"

text \<open>\<open>AWSResourceBuilder.generate_resource_name\<close>.\<close>

definition generate_resource_name :: "config \<Rightarrow> string \<Rightarrow> string" where
  "generate_resource_name cfg base_name =
     (let tm = lower (strip (get_default (team cfg) ''team''));
          svc = lower (strip (get_default (service cfg) ''svc''));
          env = lower (strip (get_default (environment cfg) ''dev''));
          reg_abbr = get_abbreviation (get_default (region cfg) ''us-east-1'')
      in lower (tm @ ''-'' @ svc @ ''-'' @ env @ ''-'' @ reg_abbr @ ''-'' @ base_name))"

section \<open>Value resolver\<close>

text \<open>
  The \<open>ref:\<close> branch of \<open>resolve_value\<close>, from the text after the prefix: the resource
  name and the attribute are split at the first dot, the registry is searched, the
  attribute is read with \<open>getattr\<close> and, when that raises \<open>AttributeError\<close>, with
  \<open>get_string\<close> after a warning.
\<close>

definition resolve_ref :: "'h backend \<Rightarrow> string \<Rightarrow> (string \<times> 'h) list \<Rightarrow> pyvalue outcome" where
  "resolve_ref b ref_text registry =
     (let (ref_res, ref_attr) =
            (if CHR ''.'' \<in> set ref_text then split_once CHR ''.'' ref_text
             else (ref_text, ''id''))
      in case map_of registry ref_res of
           None \<Rightarrow>
             (Inl (ValueError (''Referenced resource '' @ [CHR 0x27] @ ref_res @ [CHR 0x27]
                                @ '' not found.'')), [])
         | Some resource_obj \<Rightarrow>
             (case getattr b resource_obj ref_attr of
                Inr v \<Rightarrow> (Inr v, [])
              | Inl (AttributeError m) \<Rightarrow>
                  (get_string b resource_obj ref_attr, [AttributeWarning ref_attr ref_res])
              | Inl e \<Rightarrow> (Inl e, [])))"

text \<open>
  \<open>resolve_value\<close>. The comprehensions over a mapping and over a sequence resolve the
  elements from left to right and stop at the first one that raises; \<open>resolve_items\<close> is
  also the comprehension of \<open>AWSResourceBuilder.resolve_args\<close>.
\<close>

fun resolve_value :: "'h backend \<Rightarrow> pyvalue \<Rightarrow> (string \<times> 'h) list \<Rightarrow> pyvalue outcome"
and resolve_list :: "'h backend \<Rightarrow> pyvalue list \<Rightarrow> (string \<times> 'h) list \<Rightarrow> pyvalue list outcome"
and resolve_items :: "'h backend \<Rightarrow> (string \<times> pyvalue) list \<Rightarrow> (string \<times> 'h) list
                        \<Rightarrow> (string \<times> pyvalue) list outcome"
where
  "resolve_value b (VDict kvs) registry =
     (case resolve_items b kvs registry of
        (Inl e, l) \<Rightarrow> (Inl e, l)
      | (Inr kvs', l) \<Rightarrow> (Inr (VDict kvs'), l))"
| "resolve_value b (VList items) registry =
     (case resolve_list b items registry of
        (Inl e, l) \<Rightarrow> (Inl e, l)
      | (Inr items', l) \<Rightarrow> (Inr (VList items'), l))"
| "resolve_value b (VStr s) registry =
     (if startswith s ''secret:'' then
        (let secret_key = drop 7 s
         in (Inr (VStr (''${'' @ secret_key @ ''}'')), [SecretWarning secret_key]))
      else if startswith s ''ref:'' then resolve_ref b (drop 4 s) registry
      else (Inr (VStr s), []))"
| "resolve_value b VNone registry = (Inr VNone, [])"
| "resolve_value b (VBool x) registry = (Inr (VBool x), [])"
| "resolve_value b (VInt i) registry = (Inr (VInt i), [])"
| "resolve_list b [] registry = (Inr [], [])"
| "resolve_list b (item # items) registry =
     (case resolve_value b item registry of
        (Inl e, l) \<Rightarrow> (Inl e, l)
      | (Inr v, l) \<Rightarrow>
          (case resolve_list b items registry of
             (Inl e, l') \<Rightarrow> (Inl e, l @ l')
           | (Inr vs, l') \<Rightarrow> (Inr (v # vs), l @ l')))"
| "resolve_items b [] registry = (Inr [], [])"
| "resolve_items b ((k, v) # kvs) registry =
     (case resolve_value b v registry of
        (Inl e, l) \<Rightarrow> (Inl e, l)
      | (Inr v', l) \<Rightarrow>
          (case resolve_items b kvs registry of
             (Inl e, l') \<Rightarrow> (Inl e, l @ l')
           | (Inr kvs', l') \<Rightarrow> (Inr ((k, v') # kvs'), l @ l')))"

text \<open>An argument tree without markers: no string value in it starts with \<open>ref:\<close> or
  \<open>secret:\<close>.\<close>

fun marker_free :: "pyvalue \<Rightarrow> bool" where
  "marker_free (VStr s) = (\<not> startswith s ''ref:'' \<and> \<not> startswith s ''secret:'')"
| "marker_free (VList items) = list_all marker_free items"
| "marker_free (VDict kvs) = list_all (\<lambda>kv. marker_free (snd kv)) kvs"
| "marker_free v = True"

section \<open>Resource type mapper\<close>

text \<open>The table \<open>service_map\<close> of \<open>AWSResourceBuilder._map_resource_type\<close>.\<close>

definition service_map :: "(string \<times> string) list" where
  "service_map =
    [(''vpc'', ''vpc''),
     (''ec2'', ''instance''),
     (''s3'', ''s3_bucket''),
     (''s3_bucket'', ''s3_bucket''),
     (''iam'', ''iam_role''),
     (''lambda'', ''lambda_function''),
     (''apigateway'', ''api_gateway_rest_api''),
     (''apigatewayv2'', ''apigatewayv2_api''),
     (''dynamodb'', ''dynamodb_table''),
     (''cloudfront'', ''cloudfront_distribution''),
     (''cloudwatch'', ''cloudwatch_dashboard''),
     (''cognito'', ''cognito_user_pool''),
     (''sqs'', ''sqs_queue''),
     (''ssm'', ''ssm_parameter''),
     (''bedrock'', ''bedrock_agent'')]"

text \<open>\<open>AWSResourceBuilder._map_resource_type\<close>: the module name and the class name.\<close>

definition map_resource_type :: "string \<Rightarrow> string \<times> string" where
  "map_resource_type resource_type =
     (let (svc, class_name) =
            (if CHR ''.'' \<in> set resource_type then split_once CHR ''.'' resource_type
             else (''ec2'', resource_type));
          module_name = dict_get service_map (lower svc) (lower svc)
      in (module_name, class_name))"

section \<open>Tag policy\<close>

definition tag_supporting_resources :: "string list" where
  "tag_supporting_resources =
    [''s3_bucket.s3bucket'',
     ''lambda_function.lambdafunction'',
     ''dynamodb_table.dynamodbtable'',
     ''api_gateway_rest_api.apigatewayrestapi'',
     ''cognito_user_pool.cognitouserpool'',
     ''sqs_queue.sqsqueue'',
     ''apigatewayv2_api.apigatewayv2api'',
     ''ssm_parameter.ssmparameter'',
     ''iam_role.iamrole'',
     ''cloudfront_distribution.cloudfrontdistribution'']"

text \<open>The test \<open>supports_tags\<close> of \<open>_apply_common_parameters\<close>.\<close>

definition supports_tags :: "string \<Rightarrow> bool" where
  "supports_tags resource_type =
     (let resource_type_lower = lower resource_type
      in list_ex (\<lambda>tag_resource. contains resource_type_lower (lower tag_resource))
           tag_supporting_resources)"

text \<open>\<open>AWSResourceBuilder._apply_common_parameters\<close>.\<close>

definition apply_common_parameters ::
  "config \<Rightarrow> (string \<times> pyvalue) list \<Rightarrow> string \<Rightarrow> (string \<times> pyvalue) list" where
  "apply_common_parameters cfg resolved_args resource_type =
     (if supports_tags resource_type then
        (let resource_tags = get_default (tags cfg) (VDict [])
         in if truthy resource_tags then setdefault resolved_args ''tags'' resource_tags
            else resolved_args)
      else resolved_args)"

section \<open>Resource builder\<close>

text \<open>The classes named in \<open>except (ImportError, AttributeError)\<close>.\<close>

fun caught :: "exn \<Rightarrow> bool" where
  "caught (ImportError m) = True"
| "caught (AttributeError m) = True"
| "caught e = False"

text \<open>
  The body of the \<open>try\<close> statement of \<open>build\<close> for one declaration: the handle to
  register and the line printed, or the exception raised. A module that is not found
  raises \<open>ImportError\<close>, a class that is not in its module \<open>AttributeError\<close>; the message
  is the dotted module path or the attribute name.
\<close>

definition materialize ::
  "'h backend \<Rightarrow> config \<Rightarrow> string \<Rightarrow> string \<Rightarrow> string option \<Rightarrow> bool
     \<Rightarrow> (string \<times> pyvalue) list \<Rightarrow> exn + ('h \<times> event)" where
  "materialize b cfg nm resource_type custom is_existing resolved_args =
     (let (module_name, class_name) = map_resource_type resource_type
      in case map_of (modules b) module_name of
           None \<Rightarrow> Inl (ImportError (''imports.aws.'' @ module_name))
         | Some members \<Rightarrow>
             if class_name \<notin> set members then Inl (AttributeError class_name)
             else
               (let terraform_name =
                      (case custom of
                         None \<Rightarrow> generate_resource_name cfg nm
                       | Some c \<Rightarrow> if c \<noteq> [] then c else generate_resource_name cfg nm);
                    resolved_args' = apply_common_parameters cfg resolved_args resource_type
                in if is_existing then
                     (case map_of (modules b) (module_name @ ''_data'') of
                        None \<Rightarrow> Inl (ImportError (''imports.aws.'' @ module_name @ ''_data''))
                      | Some data_members \<Rightarrow>
                          if class_name @ ''Data'' \<notin> set data_members
                          then Inl (AttributeError (class_name @ ''Data''))
                          else
                            (case construct b (module_name @ ''_data'') (class_name @ ''Data'')
                                    nm resolved_args' of
                               Inl e \<Rightarrow> Inl e
                             | Inr h \<Rightarrow> Inr (h, CreatedDataSource terraform_name resource_type)))
                   else
                     (case construct b module_name class_name nm resolved_args' of
                        Inl e \<Rightarrow> Inl e
                      | Inr h \<Rightarrow> Inr (h, CreatedResource terraform_name resource_type))))"

text \<open>
  One round of the loop of \<open>build\<close>: the new state, and the exception that leaves the
  loop if there is one. The arguments are resolved before the \<open>try\<close> statement.
\<close>

definition build_resource ::
  "'h backend \<Rightarrow> config \<Rightarrow> aws_resource \<Rightarrow> 'h builder \<Rightarrow> 'h builder \<times> exn option" where
  "build_resource b cfg resource_cfg st =
     (let nm = name resource_cfg;
          resource_type = rtype resource_cfg;
          args0 = get_default (args resource_cfg) [];
          custom = custom_name resource_cfg;
          is_existing = truthy (dict_get args0 ''existing'' (VBool False));
          args1 = dict_remove args0 ''existing''
      in case resolve_items b args1 (resources st) of
           (Inl e, l) \<Rightarrow> (st\<lparr>printed := printed st @ l\<rparr>, Some e)
         | (Inr resolved_args, l) \<Rightarrow>
             (let st1 = st\<lparr>printed := printed st @ l\<rparr>
              in case materialize b cfg nm resource_type custom is_existing resolved_args of
                   Inr (h, line) \<Rightarrow>
                     (st1\<lparr>resources := dict_set (resources st1) nm h,
                          printed := printed st1 @ [line]\<rparr>, None)
                 | Inl e \<Rightarrow>
                     if caught e
                     then (st1\<lparr>printed := printed st1 @ [ErrorCreating nm resource_type e]\<rparr>,
                           None)
                     else (st1, Some e)))"

fun build_loop ::
  "'h backend \<Rightarrow> config \<Rightarrow> aws_resource list \<Rightarrow> 'h builder \<Rightarrow> 'h builder \<times> exn option" where
  "build_loop b cfg [] st = (st, None)"
| "build_loop b cfg (resource_cfg # rest) st =
     (case build_resource b cfg resource_cfg st of
        (st', Some e) \<Rightarrow> (st', Some e)
      | (st', None) \<Rightarrow> build_loop b cfg rest st')"

text \<open>The export loop of \<open>build\<close> over the items of the registry.\<close>

fun export_outputs :: "'h backend \<Rightarrow> (string \<times> 'h) list \<Rightarrow> 'h builder \<Rightarrow> 'h builder" where
  "export_outputs b [] st = st"
| "export_outputs b ((nm, resource) # rest) st =
     export_outputs b rest
       (case getattr b resource ''id'' of
          Inl e \<Rightarrow> st\<lparr>printed := printed st @ [ExportFailed nm e]\<rparr>
        | Inr v \<Rightarrow>
            (case terraform_output b (''output_'' @ nm) v of
               Some e \<Rightarrow> st\<lparr>printed := printed st @ [ExportFailed nm e]\<rparr>
             | None \<Rightarrow> st\<lparr>outputs := outputs st @ [(''output_'' @ nm, v)]\<rparr>))"

text \<open>\<open>AWSResourceBuilder.build\<close>.\<close>

definition build :: "'h backend \<Rightarrow> config \<Rightarrow> 'h builder \<Rightarrow> 'h builder \<times> exn option" where
  "build b cfg st =
     (case build_loop b cfg (get_default (aws_resources cfg) []) st of
        (st', Some e) \<Rightarrow> (st', Some e)
      | (st', None) \<Rightarrow> (export_outputs b (resources st') st', None))"

text \<open>The builder after \<open>AWSResourceBuilder.__init__\<close>: an empty registry. The provider
  that the constructor adds to the stack belongs to the backend.\<close>

definition new_builder :: "'h builder" where
  "new_builder = \<lparr>resources = [], printed = [], outputs = []\<rparr>"

section \<open>Configuration loader and stack\<close>

definition required_keys :: "string list" where
  "required_keys = [''team'', ''service'', ''environment'', ''region'']"

text \<open>\<open>key in config_data\<close> on the loaded document.\<close>

definition has_key :: "config \<Rightarrow> string \<Rightarrow> bool" where
  "has_key config_data key =
     (if key = ''team'' then team config_data \<noteq> None
      else if key = ''service'' then service config_data \<noteq> None
      else if key = ''environment'' then environment config_data \<noteq> None
      else if key = ''region'' then region config_data \<noteq> None
      else if key = ''tags'' then tags config_data \<noteq> None
      else if key = ''aws_resources'' then aws_resources config_data \<noteq> None
      else False)"

text \<open>
  \<open>load_config\<close> of \<open>main.py\<close>. Opening and parsing the file is the parameter
  \<open>yaml_safe_load\<close>; the loop raises at the first required key that is missing.
\<close>

definition load_config :: "(string \<Rightarrow> exn + config) \<Rightarrow> string \<Rightarrow> exn + config" where
  "load_config yaml_safe_load file_path =
     (case yaml_safe_load file_path of
        Inl e \<Rightarrow> Inl e
      | Inr config_data \<Rightarrow>
          (case find (\<lambda>key. \<not> has_key config_data key) required_keys of
             Some key \<Rightarrow> Inl (ValueError (''Missing required configuration key: '' @ key))
           | None \<Rightarrow> Inr config_data))"

text \<open>\<open>AwsClassicStack.__init__\<close>: load, build, and print and raise again what fails.\<close>

definition aws_classic_stack ::
  "(string \<Rightarrow> exn + config) \<Rightarrow> 'h backend \<Rightarrow> 'h builder \<times> exn option" where
  "aws_classic_stack yaml_safe_load b =
     (case load_config yaml_safe_load ''config.yaml'' of
        Inl e \<Rightarrow> (new_builder\<lparr>printed := [StackCreationError e]\<rparr>, Some e)
      | Inr config_data \<Rightarrow>
          (case build b config_data new_builder of
             (st, Some e) \<Rightarrow> (st\<lparr>printed := printed st @ [StackCreationError e]\<rparr>, Some e)
           | (st, None) \<Rightarrow> (st, None)))"

section \<open>Example inputs\<close>

text \<open>An argument tree without markers; one of its keys starts with \<open>ref:\<close>.\<close>

definition example_tree :: pyvalue where
  "example_tree =
     VDict [(''cidr_block'', VStr ''10.0.0.0/16''),
            (''ref:key'', VList [VInt 1, VBool True, VNone, VStr ''reference'']),
            (''tags'', VDict [(''Name'', VStr ''example-vpc'')])]"


text \<open>
  A backend for the examples. A handle is the identifier and the keyword arguments its
  constructor received; \<open>id\<close> reads as a token built from the identifier, any other
  attribute as the argument of that name, and \<open>get_string\<close> returns a token for every
  attribute name.
\<close>

definition example_backend :: "(string \<times> (string \<times> pyvalue) list) backend" where
  "example_backend =
     \<lparr>modules = [(''vpc'', [''Vpc'']), (''subnet'', [''Subnet'']),
                 (''s3_bucket'', [''S3Bucket''])],
      construct = (\<lambda>module_name class_name ident kwargs. Inr (ident, kwargs)),
      getattr = (\<lambda>h attr.
         if attr = ''id'' then Inr (VStr (''${'' @ fst h @ ''.id}''))
         else (case map_of (snd h) attr of
                 None \<Rightarrow> Inl (AttributeError attr)
               | Some v \<Rightarrow> Inr v)),
      get_string = (\<lambda>h attr. Inr (VStr (''${'' @ fst h @ ''.'' @ attr @ ''}''))),
      terraform_output = (\<lambda>output_name v. None)\<rparr>"

text \<open>A registry that holds the handle of \<open>vpc-example\<close>.\<close>

definition example_registry :: "(string \<times> string \<times> (string \<times> pyvalue) list) list" where
  "example_registry = [(''vpc-example'', (''vpc-example'', [(''cidr_block'', VStr ''10.0.0.0/16'')]))]"

text \<open>The organizational context of \<open>example.py\<close>, with a list of declarations.\<close>

definition demo_config :: "aws_resource list \<Rightarrow> config" where
  "demo_config declarations =
     \<lparr>team = Some ''Demo'', service = Some ''example'', environment = Some ''dev'',
      region = Some ''us-east-1'',
      tags = Some (VDict [(''Owner'', VStr ''example-user''),
                          (''Project'', VStr ''TerraformExample'')]),
      aws_resources = Some declarations\<rparr>"

definition vpc_declaration :: "string \<Rightarrow> string option \<Rightarrow> aws_resource" where
  "vpc_declaration nm custom =
     \<lparr>name = nm, rtype = ''vpc.Vpc'',
      args = Some [(''cidr_block'', VStr ''10.0.0.0/16'')], custom_name = custom\<rparr>"






text \<open>Two declarations, the second with a custom name.\<close>

definition custom_name_config :: config where
  "custom_name_config =
     demo_config [vpc_declaration ''vpc-example'' None,
                  vpc_declaration ''vpc-custom'' (Some ''my-vpc'')]"

text \<open>A document without the key \<open>environment\<close>.\<close>

definition incomplete_document :: config where
  "incomplete_document =
     \<lparr>team = Some ''Demo'', service = Some ''example'', environment = None,
      region = Some ''us-east-1'', tags = None,
      aws_resources = Some [vpc_declaration ''one'' None]\<rparr>"



section \<open>Facts about the string functions\<close>

lemma split_once_append:
  "sep \<notin> set a \<Longrightarrow> split_once sep (a @ sep # b) = (a, b)"
  by (induction a) (auto simp: split_once_def)

lemma split_head_append:
  "sep \<notin> set a \<Longrightarrow> split_head sep (a @ sep # b) = a"
  by (induction a) (auto simp: split_head_def)

lemma split_head_none:
  "sep \<notin> set s \<Longrightarrow> split_head sep s = s"
  by (induction s) (auto simp: split_head_def)

lemma lower_char_idem: "lower_char (lower_char c) = lower_char c"
  by (simp add: lower_char_def Let_def)

lemma lower_idem: "lower (lower s) = lower s"
  by (simp add: lower_def lower_char_idem)

lemma lower_append: "lower (a @ b) = lower a @ lower b"
  by (simp add: lower_def)

lemma lower_ec2: "lower ''ec2'' = ''ec2''"
  by code_simp

lemma lower_s3: "lower ''s3'' = ''s3''"
  by code_simp

lemma lower_foo: "lower ''foo'' = ''foo''"
  by code_simp

section \<open>Properties of the resource type mapper\<close>

text \<open>
  C7: MapType splits the type tag at its first dot, looks the lowercased service part up
  in the service table, falls back to the lowercased service part when the table has no
  entry for it, and returns the class part as it is. The tag \<open>s3.Bucket\<close> maps to
  module \<open>s3_bucket\<close> and class \<open>Bucket\<close>, the tag \<open>foo.Widget\<close> to module \<open>foo\<close> and
  class \<open>Widget\<close>.
\<close>

theorem map_resource_type_dotted:
  "(CHR ''.'' \<notin> set svc \<longrightarrow>
      map_resource_type (svc @ ''.'' @ cls) =
        (case map_of service_map (lower svc) of None \<Rightarrow> lower svc | Some m \<Rightarrow> m, cls))
   \<and> map_resource_type ''s3.Bucket'' = (''s3_bucket'', ''Bucket'')
   \<and> map_resource_type ''foo.Widget'' = (''foo'', ''Widget'')"
proof (intro conjI impI)
  assume "CHR ''.'' \<notin> set svc"
  then show "map_resource_type (svc @ ''.'' @ cls) =
        (case map_of service_map (lower svc) of None \<Rightarrow> lower svc | Some m \<Rightarrow> m, cls)"
    by (simp add: map_resource_type_def split_once_append dict_get_def)
next
  show "map_resource_type ''s3.Bucket'' = (''s3_bucket'', ''Bucket'')"
    by (simp add: map_resource_type_def split_once_def dict_get_def lower_s3 service_map_def)
next
  show "map_resource_type ''foo.Widget'' = (''foo'', ''Widget'')"
    by (simp add: map_resource_type_def split_once_def dict_get_def lower_foo service_map_def)
qed

theorem map_resource_type_dotted_witness:
  "CHR ''.'' \<notin> set ''Lambda''
   \<and> map_resource_type ''Lambda.Function'' = (''lambda_function'', ''Function'')"
proof -
  have l: "lower ''Lambda'' = ''lambda''" by code_simp
  have d: "CHR ''.'' \<notin> set ''Lambda''" by simp
  from map_resource_type_dotted [of "''Lambda''" "''Function''"] d
  have "map_resource_type (''Lambda'' @ ''.'' @ ''Function'') =
        (case map_of service_map (lower ''Lambda'') of None \<Rightarrow> lower ''Lambda'' | Some m \<Rightarrow> m,
         ''Function'')"
    by blast
  then show ?thesis
    by (simp add: l service_map_def)
qed

text \<open>
  C10: for a type tag without a dot, MapType returns the whole tag as the class name and
  the module name \<open>instance\<close>: the default service \<open>ec2\<close> goes through the service
  table like any other, so the module is never \<open>ec2\<close>.
\<close>

theorem map_resource_type_dotless:
  "CHR ''.'' \<notin> set tag \<Longrightarrow> map_resource_type tag = (''instance'', tag)"
  by (simp add: map_resource_type_def dict_get_def lower_ec2 service_map_def)

theorem map_resource_type_dotless_witness:
  "CHR ''.'' \<notin> set ''Vpc'' \<and> map_resource_type ''Vpc'' = (''instance'', ''Vpc'')
   \<and> fst (map_resource_type ''Vpc'') \<noteq> ''ec2''"
  using map_resource_type_dotless [of "''Vpc''"] by simp

section \<open>Properties of the naming convention engine\<close>

lemma abbreviations_lower:
  "list_all (\<lambda>kv. lower (snd kv) = snd kv) AWS_REGION_ABBREVIATIONS"
  by code_simp

lemma abbreviation_lower:
  assumes "map_of AWS_REGION_ABBREVIATIONS k = Some a"
  shows "lower a = a"
proof -
  from assms have "(k, a) \<in> set AWS_REGION_ABBREVIATIONS" by (rule map_of_SomeD)
  with abbreviations_lower show ?thesis by (auto simp: list_all_iff)
qed

lemma get_abbreviation_lower: "lower (get_abbreviation r) = get_abbreviation r"
  by (auto simp: get_abbreviation_def dict_get_def lower_idem abbreviation_lower
        split: option.splits)

lemma lower_dash: "lower ''-'' = ''-''"
  by code_simp

lemma generate_resource_name_demo:
  "generate_resource_name
       \<lparr>team = Some ''Demo'', service = Some ''example'', environment = Some ''dev'',
        region = Some ''us-east-1'', tags = None, aws_resources = None\<rparr> ''vpc-example''
     = ''demo-example-dev-use1-vpc-example''"
  by code_simp

lemma get_abbreviation_foo: "get_abbreviation ''foo-bar-1'' = ''foo''"
  by code_simp

text \<open>
  C6: GenerateName is team, service, environment, region abbreviation and base name
  joined by hyphens, all in lower case: team, service and environment are trimmed and
  lowercased, the abbreviation is the region table's entry for the lowercased region or,
  when there is none, the lowercased text before the region's first hyphen. Under the
  context Demo, example, dev, us-east-1 the base name \<open>vpc-example\<close> gives
  \<open>demo-example-dev-use1-vpc-example\<close>, and the region \<open>foo-bar-1\<close> is abbreviated
  \<open>foo\<close>.
\<close>

theorem generate_resource_name_format:
  "generate_resource_name cfg base_name =
     lower (strip (get_default (team cfg) ''team'')) @ ''-'' @
     lower (strip (get_default (service cfg) ''svc'')) @ ''-'' @
     lower (strip (get_default (environment cfg) ''dev'')) @ ''-'' @
     (case map_of AWS_REGION_ABBREVIATIONS (lower (get_default (region cfg) ''us-east-1'')) of
        Some abbr \<Rightarrow> abbr
      | None \<Rightarrow> lower (split_head CHR ''-'' (get_default (region cfg) ''us-east-1''))) @ ''-'' @
     lower base_name
   \<and> generate_resource_name
       \<lparr>team = Some ''Demo'', service = Some ''example'', environment = Some ''dev'',
        region = Some ''us-east-1'', tags = None, aws_resources = None\<rparr> ''vpc-example''
     = ''demo-example-dev-use1-vpc-example''
   \<and> get_abbreviation ''foo-bar-1'' = ''foo''"
proof (intro conjI)
  have "(case map_of AWS_REGION_ABBREVIATIONS (lower r) of
        Some abbr \<Rightarrow> abbr
      | None \<Rightarrow> lower (split_head CHR ''-'' r)) = get_abbreviation r" for r
    by (simp add: get_abbreviation_def dict_get_def split: option.splits)
  then show "generate_resource_name cfg base_name =
     lower (strip (get_default (team cfg) ''team'')) @ ''-'' @
     lower (strip (get_default (service cfg) ''svc'')) @ ''-'' @
     lower (strip (get_default (environment cfg) ''dev'')) @ ''-'' @
     (case map_of AWS_REGION_ABBREVIATIONS (lower (get_default (region cfg) ''us-east-1'')) of
        Some abbr \<Rightarrow> abbr
      | None \<Rightarrow> lower (split_head CHR ''-'' (get_default (region cfg) ''us-east-1''))) @ ''-'' @
     lower base_name"
    by (simp only: generate_resource_name_def Let_def lower_append lower_idem lower_dash
          get_abbreviation_lower)
qed (rule generate_resource_name_demo get_abbreviation_foo)+

section \<open>Properties of the value resolver\<close>

lemma resolve_marker_free:
  "marker_free v \<Longrightarrow> resolve_value b v registry = (Inr v, [])"
  "list_all marker_free vs \<Longrightarrow> resolve_list b vs registry = (Inr vs, [])"
  "list_all (\<lambda>kv. marker_free (snd kv)) kvs \<Longrightarrow> resolve_items b kvs registry = (Inr kvs, [])"
  by (induction b v registry and b vs registry and b kvs registry
        rule: resolve_value_resolve_list_resolve_items.induct) auto

text \<open>
  C8: on an argument tree of mappings, sequences and scalars in which no string value
  starts with \<open>ref:\<close> or \<open>secret:\<close>, Resolve returns the tree itself, raises nothing and
  prints nothing, whatever the registry holds.
\<close>

theorem resolve_value_marker_free:
  "marker_free v \<Longrightarrow> resolve_value b v registry = (Inr v, [])"
  by (rule resolve_marker_free)

theorem resolve_value_marker_free_witness:
  "marker_free example_tree
   \<and> resolve_value example_backend example_tree example_registry = (Inr example_tree, [])"
proof -
  have m: "marker_free example_tree" by (simp add: example_tree_def)
  from resolve_value_marker_free [OF m, of example_backend example_registry] m
  show ?thesis by simp
qed

section \<open>Properties of the tag policy\<close>

lemma startswith_refl: "startswith s s"
  by (induction s) auto

lemma contains_refl: "contains s s"
  by (cases s) (auto simp: startswith_refl)

lemma tag_supporting_lower:
  "list_all (\<lambda>t. lower t = t) tag_supporting_resources"
  by code_simp

text \<open>A type that is, in lower case, one of the listed families passes the test.\<close>

lemma tag_capable_supports_tags:
  assumes "lower resource_type \<in> set tag_supporting_resources"
  shows "supports_tags resource_type"
proof -
  from assms tag_supporting_lower have "lower (lower resource_type) = lower resource_type"
    by (simp add: lower_idem)
  with assms tag_supporting_lower show ?thesis
    unfolding supports_tags_def Let_def list_ex_iff list_all_iff
    by (metis contains_refl)
qed





section \<open>References\<close>

lemma resolve_value_ref:
  "resolve_value b (VStr (''ref:'' @ x)) registry = resolve_ref b x registry"
  by simp

lemma resolve_ref_dotted:
  assumes "CHR ''.'' \<notin> set A"
  shows "resolve_ref b (A @ ''.'' @ attr) registry =
     (case map_of registry A of
        None \<Rightarrow> (Inl (ValueError (''Referenced resource '' @ [CHR 0x27] @ A @ [CHR 0x27]
                                @ '' not found.'')), [])
      | Some h \<Rightarrow>
          (case getattr b h attr of
             Inr v \<Rightarrow> (Inr v, [])
           | Inl (AttributeError m) \<Rightarrow> (get_string b h attr, [AttributeWarning attr A])
           | Inl e \<Rightarrow> (Inl e, [])))"
  using assms by (simp add: resolve_ref_def split_once_append)

lemma resolve_ref_plain:
  assumes "CHR ''.'' \<notin> set A"
  shows "resolve_ref b A registry =
     (case map_of registry A of
        None \<Rightarrow> (Inl (ValueError (''Referenced resource '' @ [CHR 0x27] @ A @ [CHR 0x27]
                                @ '' not found.'')), [])
      | Some h \<Rightarrow>
          (case getattr b h ''id'' of
             Inr v \<Rightarrow> (Inr v, [])
           | Inl (AttributeError m) \<Rightarrow> (get_string b h ''id'', [AttributeWarning ''id'' A])
           | Inl e \<Rightarrow> (Inl e, [])))"
  using assms by (simp add: resolve_ref_def)

lemma nodot_vpc: "CHR ''.'' \<notin> set ''vpc-example''" by simp
lemma nodot_missing: "CHR ''.'' \<notin> set ''missing''" by simp

text \<open>
  C4: for a string \<open>ref:A.attr\<close>, where \<open>A\<close> is the resource name in front of the first
  dot: when \<open>A\<close> is not in the registry, Resolve raises the error that the referenced
  resource was not found (this is the case of a self reference and of a forward
  reference, whose name is not registered yet); when \<open>A\<close> is registered, Resolve returns
  the value of attribute \<open>attr\<close> of \<open>A\<close>'s handle, read directly or, after a warning,
  through the handle's accessor by name; and for handles on which the attribute can be
  read one way or the other, Resolve fails exactly when \<open>A\<close> is absent.
\<close>

theorem resolve_value_ref_lookup:
  assumes "CHR ''.'' \<notin> set A"
  shows "(map_of registry A = None \<longrightarrow>
            resolve_value b (VStr (''ref:'' @ A @ ''.'' @ attr)) registry
              = (Inl (ValueError (''Referenced resource '' @ [CHR 0x27] @ A @ [CHR 0x27]
                                   @ '' not found.'')), []))
       \<and> (\<forall>h v. map_of registry A = Some h \<and> getattr b h attr = Inr v \<longrightarrow>
            resolve_value b (VStr (''ref:'' @ A @ ''.'' @ attr)) registry = (Inr v, []))
       \<and> (\<forall>h m v. map_of registry A = Some h \<and> getattr b h attr = Inl (AttributeError m)
                   \<and> get_string b h attr = Inr v \<longrightarrow>
            resolve_value b (VStr (''ref:'' @ A @ ''.'' @ attr)) registry
              = (Inr v, [AttributeWarning attr A]))
       \<and> ((\<forall>h. map_of registry A = Some h \<longrightarrow>
               (\<exists>v. getattr b h attr = Inr v
                     \<or> (\<exists>m. getattr b h attr = Inl (AttributeError m))
                        \<and> get_string b h attr = Inr v)) \<longrightarrow>
            (isl (fst (resolve_value b (VStr (''ref:'' @ A @ ''.'' @ attr)) registry))
               \<longleftrightarrow> map_of registry A = None))"
proof -
  note r = resolve_value_ref resolve_ref_dotted [OF assms]
  show ?thesis
    apply (simp only: r)
    apply (cases "map_of registry A")
     apply simp
    apply (auto split: sum.splits exn.splits)
    done
qed

theorem resolve_value_ref_lookup_witness:
  "CHR ''.'' \<notin> set ''vpc-example'' \<and> CHR ''.'' \<notin> set ''missing''
   \<and> map_of example_registry ''missing'' = None
   \<and> resolve_value example_backend (VStr ''ref:missing.id'') example_registry
        = (Inl (ValueError (''Referenced resource '' @ [CHR 0x27] @ ''missing'' @ [CHR 0x27]
                             @ '' not found.'')), [])
   \<and> resolve_value example_backend (VStr ''ref:vpc-example.cidr_block'') example_registry
        = (Inr (VStr ''10.0.0.0/16''), [])
   \<and> resolve_value example_backend (VStr ''ref:vpc-example.arn'') example_registry
        = (Inr (VStr ''${vpc-example.arn}''), [AttributeWarning ''arn'' ''vpc-example''])
   \<and> \<not> isl (fst (resolve_value example_backend (VStr ''ref:vpc-example.cidr_block'')
                     example_registry))"
proof -
  let ?h = "(''vpc-example'', [(''cidr_block'', VStr ''10.0.0.0/16'')])"
  have absent: "map_of example_registry ''missing'' = None"
    by (simp add: example_registry_def)
  have present: "map_of example_registry ''vpc-example'' = Some ?h"
    by (simp add: example_registry_def)
  have direct: "getattr example_backend ?h ''cidr_block'' = Inr (VStr ''10.0.0.0/16'')"
    by (simp add: example_backend_def)
  have indirect: "getattr example_backend ?h ''arn'' = Inl (AttributeError ''arn'')"
    by (simp add: example_backend_def)
  have fallback: "get_string example_backend ?h ''arn'' = Inr (VStr ''${vpc-example.arn}'')"
    by (simp add: example_backend_def)
  have readable: "\<forall>h. map_of example_registry ''vpc-example'' = Some h \<longrightarrow>
      (\<exists>v. getattr example_backend h ''cidr_block'' = Inr v
         \<or> (\<exists>m. getattr example_backend h ''cidr_block'' = Inl (AttributeError m))
            \<and> get_string example_backend h ''cidr_block'' = Inr v)"
    using present direct by auto
  from resolve_value_ref_lookup [OF nodot_missing, of example_registry example_backend "''id''"]
       absent
  have 1: "resolve_value example_backend (VStr ''ref:missing.id'') example_registry
        = (Inl (ValueError (''Referenced resource '' @ [CHR 0x27] @ ''missing'' @ [CHR 0x27]
                             @ '' not found.'')), [])"
    by simp
  from resolve_value_ref_lookup [OF nodot_vpc, of example_registry example_backend "''cidr_block''"]
       present direct readable
  have 2: "resolve_value example_backend (VStr ''ref:vpc-example.cidr_block'') example_registry
        = (Inr (VStr ''10.0.0.0/16''), [])"
    and 4: "\<not> isl (fst (resolve_value example_backend (VStr ''ref:vpc-example.cidr_block'')
                     example_registry))"
    by auto
  from resolve_value_ref_lookup [OF nodot_vpc, of example_registry example_backend "''arn''"]
       present indirect fallback
  have 3: "resolve_value example_backend (VStr ''ref:vpc-example.arn'') example_registry
        = (Inr (VStr ''${vpc-example.arn}''), [AttributeWarning ''arn'' ''vpc-example''])"
    by auto
  from 1 2 3 4 absent nodot_vpc nodot_missing show ?thesis by blast
qed

text \<open>
  C5: for a resource name \<open>A\<close>, resolving \<open>ref:A\<close> gives the same result as resolving
  \<open>ref:A.id\<close>: the attribute is \<open>id\<close> when there is no dot. Only the first dot separates the
  resource name from the attribute: in \<open>ref:A.attr\<close> the whole of \<open>attr\<close>, dots included,
  is the attribute that is looked up on \<open>A\<close>'s handle.
\<close>

theorem resolve_value_ref_default_attribute:
  assumes "CHR ''.'' \<notin> set A"
  shows "resolve_value b (VStr (''ref:'' @ A)) registry
           = resolve_value b (VStr (''ref:'' @ A @ ''.id'')) registry
       \<and> resolve_value b (VStr (''ref:'' @ A @ ''.'' @ attr)) registry =
           (case map_of registry A of
              None \<Rightarrow> (Inl (ValueError (''Referenced resource '' @ [CHR 0x27] @ A @ [CHR 0x27]
                                      @ '' not found.'')), [])
            | Some h \<Rightarrow>
                (case getattr b h attr of
                   Inr v \<Rightarrow> (Inr v, [])
                 | Inl (AttributeError m) \<Rightarrow> (get_string b h attr, [AttributeWarning attr A])
                 | Inl e \<Rightarrow> (Inl e, [])))"
proof
  have "resolve_ref b (A @ ''.id'') registry = resolve_ref b A registry"
    using resolve_ref_dotted [OF assms, of b "''id''" registry] resolve_ref_plain [OF assms, of b registry]
    by simp
  then show "resolve_value b (VStr (''ref:'' @ A)) registry
           = resolve_value b (VStr (''ref:'' @ A @ ''.id'')) registry"
    by (simp only: resolve_value_ref)
next
  show "resolve_value b (VStr (''ref:'' @ A @ ''.'' @ attr)) registry =
           (case map_of registry A of
              None \<Rightarrow> (Inl (ValueError (''Referenced resource '' @ [CHR 0x27] @ A @ [CHR 0x27]
                                      @ '' not found.'')), [])
            | Some h \<Rightarrow>
                (case getattr b h attr of
                   Inr v \<Rightarrow> (Inr v, [])
                 | Inl (AttributeError m) \<Rightarrow> (get_string b h attr, [AttributeWarning attr A])
                 | Inl e \<Rightarrow> (Inl e, [])))"
    by (simp only: resolve_value_ref resolve_ref_dotted [OF assms])
qed

theorem resolve_value_ref_default_attribute_witness:
  "CHR ''.'' \<notin> set ''vpc-example''
   \<and> resolve_value example_backend (VStr ''ref:vpc-example'') example_registry
       = resolve_value example_backend (VStr ''ref:vpc-example.id'') example_registry
   \<and> resolve_value example_backend (VStr ''ref:vpc-example.id'') example_registry
       = (Inr (VStr ''${vpc-example.id}''), [])
   \<and> resolve_value example_backend (VStr ''ref:vpc-example.tags.Name'') example_registry
       = (Inr (VStr ''${vpc-example.tags.Name}''), [AttributeWarning ''tags.Name'' ''vpc-example''])"
proof -
  have present: "map_of example_registry ''vpc-example''
                   = Some (''vpc-example'', [(''cidr_block'', VStr ''10.0.0.0/16'')])"
    by (simp add: example_registry_def)
  from resolve_value_ref_default_attribute [OF nodot_vpc, of example_backend example_registry "''id''"]
  have 1: "resolve_value example_backend (VStr ''ref:vpc-example'') example_registry
       = resolve_value example_backend (VStr ''ref:vpc-example.id'') example_registry"
    and 2: "resolve_value example_backend (VStr ''ref:vpc-example.id'') example_registry
       = (Inr (VStr ''${vpc-example.id}''), [])"
    by (simp_all add: present example_backend_def)
  from resolve_value_ref_default_attribute [OF nodot_vpc, of example_backend example_registry "''tags.Name''"]
  have 3: "resolve_value example_backend (VStr ''ref:vpc-example.tags.Name'') example_registry
       = (Inr (VStr ''${vpc-example.tags.Name}''), [AttributeWarning ''tags.Name'' ''vpc-example''])"
    by (simp add: present example_backend_def)
  from 1 2 3 nodot_vpc show ?thesis by blast
qed

section \<open>Properties of the resource builder\<close>






text \<open>
  C2 on the code: the identifier that build passes to the backend constructor is the
  declaration's name, with or without a custom name; the generated name and the custom
  name only appear in the printed line. The handle is registered under the declaration's
  name.
\<close>

theorem build_passes_declaration_name:
  "build example_backend custom_name_config new_builder =
     (\<lparr>resources =
         [(''vpc-example'', (''vpc-example'', [(''cidr_block'', VStr ''10.0.0.0/16'')])),
          (''vpc-custom'', (''vpc-custom'', [(''cidr_block'', VStr ''10.0.0.0/16'')]))],
       printed = [CreatedResource ''demo-example-dev-use1-vpc-example'' ''vpc.Vpc'',
                  CreatedResource ''my-vpc'' ''vpc.Vpc''],
       outputs = [(''output_vpc-example'', VStr ''${vpc-example.id}''),
                  (''output_vpc-custom'', VStr ''${vpc-custom.id}'')]\<rparr>,
      None)
   \<and> generate_resource_name custom_name_config ''vpc-example''
       = ''demo-example-dev-use1-vpc-example''
   \<and> construct example_backend ''vpc'' ''Vpc'' ''demo-example-dev-use1-vpc-example''
        [(''cidr_block'', VStr ''10.0.0.0/16'')]
       = Inr (''demo-example-dev-use1-vpc-example'', [(''cidr_block'', VStr ''10.0.0.0/16'')])
   \<and> construct example_backend ''vpc'' ''Vpc'' ''my-vpc''
        [(''cidr_block'', VStr ''10.0.0.0/16'')]
       = Inr (''my-vpc'', [(''cidr_block'', VStr ''10.0.0.0/16'')])"
  by code_simp

section \<open>Properties of the configuration loader\<close>

text \<open>
  C9: for a loaded document that lacks one of the keys team, service, environment and
  region, loading raises the error that names a missing required key, and the stack
  stops there, with an empty registry, no output and no printed line of the builder;
  for a document that has the four keys, loading returns the document.
\<close>

theorem load_config_required_keys:
  assumes "yaml_safe_load file_path = Inr config_data"
  shows "((team config_data = None \<or> service config_data = None
           \<or> environment config_data = None \<or> region config_data = None) \<longrightarrow>
            (\<exists>key \<in> set required_keys.
               load_config yaml_safe_load file_path
                 = Inl (ValueError (''Missing required configuration key: '' @ key)))
            \<and> (file_path = ''config.yaml'' \<longrightarrow>
                 (\<exists>e. aws_classic_stack yaml_safe_load b
                        = (\<lparr>resources = [], printed = [StackCreationError e], outputs = []\<rparr>,
                           Some e))))
       \<and> (team config_data \<noteq> None \<and> service config_data \<noteq> None
           \<and> environment config_data \<noteq> None \<and> region config_data \<noteq> None \<longrightarrow>
            load_config yaml_safe_load file_path = Inr config_data)"
  using assms
  by (auto simp: load_config_def required_keys_def has_key_def aws_classic_stack_def
        new_builder_def)

theorem load_config_required_keys_witness:
  "environment incomplete_document = None
   \<and> load_config (\<lambda>file_path. Inr incomplete_document) ''config.yaml''
       = Inl (ValueError ''Missing required configuration key: environment'')
   \<and> aws_classic_stack (\<lambda>file_path. Inr incomplete_document) example_backend
       = (\<lparr>resources = [],
           printed = [StackCreationError
                        (ValueError ''Missing required configuration key: environment'')],
           outputs = []\<rparr>,
          Some (ValueError ''Missing required configuration key: environment''))
   \<and> team (demo_config []) \<noteq> None \<and> service (demo_config []) \<noteq> None
   \<and> environment (demo_config []) \<noteq> None \<and> region (demo_config []) \<noteq> None
   \<and> load_config (\<lambda>file_path. Inr (demo_config [])) ''config.yaml'' = Inr (demo_config [])"
proof -
  have missing: "environment incomplete_document = None"
    by (simp add: incomplete_document_def)
  have present: "team (demo_config []) \<noteq> None \<and> service (demo_config []) \<noteq> None
      \<and> environment (demo_config []) \<noteq> None \<and> region (demo_config []) \<noteq> None"
    by (simp add: demo_config_def)
  have first: "find (\<lambda>key. \<not> has_key incomplete_document key) required_keys = Some ''environment''"
    by (simp add: required_keys_def has_key_def incomplete_document_def)
  from load_config_required_keys
         [of "\<lambda>file_path. Inr incomplete_document" "''config.yaml''" incomplete_document
             example_backend] missing
  obtain key e where
    k: "load_config (\<lambda>file_path. Inr incomplete_document) ''config.yaml''
          = Inl (ValueError (''Missing required configuration key: '' @ key))"
    and s: "aws_classic_stack (\<lambda>file_path. Inr incomplete_document) example_backend
          = (\<lparr>resources = [], printed = [StackCreationError e], outputs = []\<rparr>, Some e)"
    by auto
  from k first have key: "key = ''environment''"
    by (simp add: load_config_def)
  from s k key have e: "e = ValueError ''Missing required configuration key: environment''"
    by (simp add: aws_classic_stack_def new_builder_def)
  from load_config_required_keys
         [of "\<lambda>file_path. Inr (demo_config [])" "''config.yaml''" "demo_config []"] present
  have ok: "load_config (\<lambda>file_path. Inr (demo_config [])) ''config.yaml'' = Inr (demo_config [])"
    by simp
  from missing present k key s e ok show ?thesis by simp
qed

end
